theory Spec2Isabelle
  imports Complex_Main
begin

section \<open>The ECOS interface of CVXPY (ecos_conif.py)\<close>

text \<open>
  A shallow embedding of the class \<open>ECOS\<close> of
  \<open>cvxpy/reductions/solvers/conic_solvers/ecos_conif.py\<close>: its status table, its
  exponential cone order, and its methods \<open>apply\<close>, \<open>invert\<close> and \<open>solve_via_data\<close>
  (here \<open>ECOS_apply\<close>, \<open>ECOS_invert\<close>, \<open>ECOS_solve_via_data\<close>).

  Python dictionaries with a fixed key set are records, dictionaries with computed keys are
  maps, exceptions are the left summand of a result type, and the floating point numbers of
  the solver are an arbitrary type \<open>'a\<close> (with its own addition where the code adds).
\<close>

subsection \<open>Statuses and errors\<close>

text \<open>The status constants of \<open>cvxpy.settings\<close> that \<open>STATUS_MAP\<close> names.\<close>

datatype status =
    OPTIMAL
  | INFEASIBLE
  | UNBOUNDED
  | OPTIMAL_INACCURATE
  | INFEASIBLE_INACCURATE
  | UNBOUNDED_INACCURATE
  | SOLVER_ERROR

text \<open>
  The exceptions of the model. \<open>KeyError k\<close> is what a dictionary lookup raises on the
  missing key \<open>k\<close> (the only such lookup is \<open>STATUS_MAP[exitFlag]\<close>, the failure the
  specification calls UnknownExitCode); \<open>IndexError\<close> is what \<open>xs[0]\<close> raises on an empty
  sequence; \<open>TypeError\<close> is what a call raises that receives a keyword argument twice;
  \<open>UnsupportedConstraint\<close> is the failure of constraint grouping; \<open>Raised msg\<close> is any
  exception of a collaborator (coefficient extraction, the solver).
\<close>

datatype error =
    KeyError int
  | IndexError
  | TypeError
  | UnsupportedConstraint
  | Raised string

subsection \<open>Problems and constraints\<close>

text \<open>
  A constraint object, as far as the interface reads it: its \<open>id\<close>, its class
  (\<open>Zero\<close>, \<open>NonPos\<close>, \<open>SOC\<close>, \<open>ExpCone\<close>, or any other class, named by a string), its
  shape \<open>size\<close>, and the results of its methods \<open>cone_sizes()\<close> and \<open>num_cones()\<close>.
\<close>

datatype constr_kind = Zero | NonPos | SOC | ExpCone | OtherKind string

record constr =
  constr_id :: nat
  kind :: constr_kind
  constr_size :: "nat list"
  cone_sizes :: "nat list"
  num_cones :: nat

text \<open>
  A problem, as far as \<open>apply\<close> reads it: the class of its objective, the objective's
  \<open>args\<close>, the ids of \<open>problem.variables()\<close> and \<open>problem.constraints\<close>.
\<close>

datatype sense = Minimize | Maximize

record 'e problem =
  objective_sense :: sense
  objective_args :: "'e list"
  variables :: "nat list"
  constraints :: "constr list"

subsection \<open>Solver arguments and inverse data\<close>

record dims =
  dims_l :: nat
  dims_q :: "nat list"
  dims_e :: nat

text \<open>The dictionary \<open>data\<close> that \<open>apply\<close> fills; a matrix is the list of its rows.\<close>

record 'a solver_data =
  data_C :: "'a list"
  data_OFFSET :: "'a list"
  data_A :: "'a list list"
  data_B :: "'a list"
  data_DIMS :: dims
  data_G :: "'a list list"
  data_H :: "'a list"

text \<open>The dictionary \<open>inv_data\<close> that \<open>apply\<close> fills and \<open>invert\<close> reads.\<close>

record 'a inverse_data =
  VAR_ID :: nat
  OFFSET :: 'a
  EQ_CONSTR :: "constr list"
  NEQ_CONSTR :: "constr list"

subsection \<open>Raw results and solutions\<close>

text \<open>
  The result of \<open>ecos.solve\<close>: \<open>solution['info']['timing']\<close>, \<open>solution['info']\<close> and
  \<open>solution\<close> itself with its vectors \<open>x\<close>, \<open>y\<close> and \<open>z\<close>.
\<close>

record 'a ecos_timing =
  tsolve :: 'a
  tsetup :: 'a

record 'a ecos_info =
  exitFlag :: int
  pcost :: 'a
  timing :: "'a ecos_timing"
  info_iter :: int

record 'a ecos_solution =
  sol_info :: "'a ecos_info"
  sol_x :: "'a list"
  sol_y :: "'a list"
  sol_z :: "'a list"

text \<open>The keys and the values of the attribute dictionary \<open>attr\<close>.\<close>

datatype attr_key = SOLVE_TIME | SETUP_TIME | NUM_ITERS

datatype 'a attr_val = FloatVal 'a | IntVal int

text \<open>
  \<open>Solution(status, opt_val, primal_vars, dual_vars, attr)\<close>: the five arguments of the
  constructor call in \<open>invert\<close>. An optimal value that is not defined is \<open>None\<close>.
\<close>

record 'a solution =
  sol_status :: status
  opt_val :: "'a option"
  primal_vars :: "nat \<rightharpoonup> 'a list"
  dual_vars :: "nat \<rightharpoonup> 'a list"
  attr :: "attr_key \<rightharpoonup> 'a attr_val"

subsection \<open>The class constants\<close>

text \<open>\<open>ECOS.STATUS_MAP\<close>, in the order of the source.\<close>

definition STATUS_MAP :: "int \<rightharpoonup> status" where
  "STATUS_MAP = map_of
     [(0, OPTIMAL),
      (1, INFEASIBLE),
      (2, UNBOUNDED),
      (10, OPTIMAL_INACCURATE),
      (11, INFEASIBLE_INACCURATE),
      (12, UNBOUNDED_INACCURATE),
      (- 1, SOLVER_ERROR),
      (- 2, SOLVER_ERROR),
      (- 3, SOLVER_ERROR),
      (- 4, SOLVER_ERROR),
      (- 7, SOLVER_ERROR)]"

text \<open>\<open>ECOS.EXP_CONE_ORDER\<close>.\<close>

definition EXP_CONE_ORDER :: "nat list" where
  "EXP_CONE_ORDER = [0, 2, 1]"

subsection \<open>Helpers of the repository that the source file only calls\<close>

text \<open>
  Modelled from the spec: \<open>group_constraints\<close> (cvxpy.reductions.solvers.solver) is not
  among the sources. The specification (4.1): partition the flat constraint list into four
  ordered sublists, one per constraint kind, preserving each kind's relative original
  order; fail with UnsupportedConstraint if a constraint kind outside the four recognized
  kinds appears.
\<close>

record constr_map =
  cm_Zero :: "constr list"
  cm_NonPos :: "constr list"
  cm_SOC :: "constr list"
  cm_ExpCone :: "constr list"

definition recognized :: "constr \<Rightarrow> bool" where
  "recognized c = (kind c = Zero \<or> kind c = NonPos \<or> kind c = SOC \<or> kind c = ExpCone)"

definition group_constraints :: "constr list \<Rightarrow> error + constr_map" where
  "group_constraints cs =
     (if list_all recognized cs then
        Inr \<lparr>cm_Zero = filter (\<lambda>c. kind c = Zero) cs,
             cm_NonPos = filter (\<lambda>c. kind c = NonPos) cs,
             cm_SOC = filter (\<lambda>c. kind c = SOC) cs,
             cm_ExpCone = filter (\<lambda>c. kind c = ExpCone) cs\<rparr>
      else Inl UnsupportedConstraint)"

text \<open>
  Modelled from the spec: \<open>failure_solution\<close> (cvxpy.reductions.solution) is not among
  the sources. The specification (4.5, step 4): the canonical failure Solution carrying
  only the translated status, no primal/dual maps, no optimal value.
\<close>

definition failure_solution :: "status \<Rightarrow> 'a solution" where
  "failure_solution st =
     \<lparr>sol_status = st, opt_val = None, primal_vars = Map.empty, dual_vars = Map.empty,
      attr = Map.empty\<rparr>"

text \<open>
  Modelled from the spec: the row permutation of an exponential cone (4.2, step 5) and its
  inverse (4.5, step 3c); the code that permutes is not among the sources.
  \<open>permute_rows order block\<close> is \<open>block[order]\<close>: row \<open>j\<close> of the result is row
  \<open>order[j]\<close> of the block (an index outside the block contributes no row).
  \<open>inverse_order order\<close> is the order that undoes it (\<open>argsort\<close>): position \<open>i\<close> holds the
  place of \<open>i\<close> in \<open>order\<close>. \<open>permute_cones\<close> permutes a stack of cones cone by cone, three
  rows at a time; rows after the last whole cone stay as they are.
\<close>

definition permute_rows :: "nat list \<Rightarrow> 'a list \<Rightarrow> 'a list" where
  "permute_rows order block = concat (map (\<lambda>i. take 1 (drop i block)) order)"

fun index_of :: "nat \<Rightarrow> nat list \<Rightarrow> nat" where
  "index_of i [] = 0"
| "index_of i (j # js) = (if i = j then 0 else Suc (index_of i js))"

definition inverse_order :: "nat list \<Rightarrow> nat list" where
  "inverse_order order = map (\<lambda>i. index_of i order) [0..<length order]"

fun permute_cones :: "nat list \<Rightarrow> 'a list \<Rightarrow> 'a list" where
  "permute_cones order (r0 # r1 # r2 # rest) =
     permute_rows order [r0, r1, r2] @ permute_cones order rest"
| "permute_cones order rest = rest"

text \<open>
  Modelled from the spec: \<open>ConicSolver.get_dual_values\<close> is not among the sources. The
  specification (4.5, step 3c): scatter the raw dual vector back onto the recorded
  constraint list in the order used to build the matrix, applying the inverse of the
  exponential-cone row permutation to any exponential-cone dual rows; keys are constraint
  identities. The rows of a constraint (3, 8): its element count, the sum of its cone
  sizes for a second-order cone constraint, three per cone for an exponential cone
  constraint. A slice past the end of the vector is short, as a Python slice is.
\<close>

definition elem_count :: "constr \<Rightarrow> nat" where
  "elem_count c =
     (case kind c of
        SOC \<Rightarrow> sum_list (cone_sizes c)
      | ExpCone \<Rightarrow> 3 * num_cones c
      | _ \<Rightarrow> prod_list (constr_size c))"

definition dual_block :: "constr \<Rightarrow> 'a list \<Rightarrow> 'a list" where
  "dual_block c rows =
     (if kind c = ExpCone then permute_cones (inverse_order EXP_CONE_ORDER) rows else rows)"

fun get_dual_values :: "'a list \<Rightarrow> constr list \<Rightarrow> (nat \<rightharpoonup> 'a list)" where
  "get_dual_values result_vec [] = Map.empty"
| "get_dual_values result_vec (c # cs) =
     [constr_id c \<mapsto> dual_block c (take (elem_count c) result_vec)]
       ++ get_dual_values (drop (elem_count c) result_vec) cs"

text \<open>
  Modelled from the spec: the stacking that \<open>self.group_coeff_offset\<close> performs is not
  among the sources. The specification (4.2, steps 2, 4 and 5): row-stacking of each
  constraint's own coefficient extraction (a matrix and an offset vector), preserving the
  order of the list; for an exponential cone constraint each cone's three rows are
  permuted into the given order before stacking. The extraction of a single constraint is
  the parameter \<open>extraction\<close>; a failing extraction fails the stacking.
\<close>

definition constr_block ::
  "(constr \<Rightarrow> error + 'a list list \<times> 'a list) \<Rightarrow> nat list \<Rightarrow> constr \<Rightarrow>
   error + 'a list list \<times> 'a list" where
  "constr_block extraction order c =
     (case extraction c of
        Inl err \<Rightarrow> Inl err
      | Inr (coeff, offset) \<Rightarrow>
          if kind c = ExpCone
          then Inr (permute_cones order coeff, permute_cones order offset)
          else Inr (coeff, offset))"

fun row_stacking ::
  "(constr \<Rightarrow> error + 'a list list \<times> 'a list) \<Rightarrow> constr list \<Rightarrow> nat list \<Rightarrow>
   error + 'a list list \<times> 'a list" where
  "row_stacking extraction [] order = Inr ([], [])"
| "row_stacking extraction (c # cs) order =
     (case constr_block extraction order c of
        Inl err \<Rightarrow> Inl err
      | Inr (coeff, offset) \<Rightarrow>
          (case row_stacking extraction cs order of
             Inl err \<Rightarrow> Inl err
           | Inr (coeffs, offsets) \<Rightarrow> Inr (coeff @ coeffs, offset @ offsets)))"

subsection \<open>apply\<close>

text \<open>
  \<open>ECOS.apply\<close>. Its collaborators are parameters: \<open>get_coeff_offset\<close>
  (\<open>ConicSolver.get_coeff_offset\<close>, the coefficient extraction of an affine expression:
  a matrix and an offset vector, or an exception) and \<open>group_coeff_offset\<close>
  (\<open>self.group_coeff_offset\<close>, the stacked matrix and offset of a constraint list under a
  cone order, or an exception). The statements run in the order of the source, so the
  first failure is the one raised: \<open>problem.variables()[0]\<close>, \<open>problem.objective.args[0]\<close>,
  the extraction, \<open>data[s.OFFSET][0]\<close>, the grouping, the two stackings. \<open>ravel\<close> of a
  matrix is the concatenation of its rows. The class of the objective is never read.
\<close>

definition ECOS_apply ::
  "('e \<Rightarrow> error + 'a list list \<times> 'a list) \<Rightarrow>
   (constr list \<Rightarrow> nat list \<Rightarrow> error + 'a list list \<times> 'a list) \<Rightarrow>
   'e problem \<Rightarrow> error + 'a solver_data \<times> 'a inverse_data" where
  "ECOS_apply get_coeff_offset group_coeff_offset problem =
     (case variables problem of
        [] \<Rightarrow> Inl IndexError
      | var0 # _ \<Rightarrow>
     (case objective_args problem of
        [] \<Rightarrow> Inl IndexError
      | arg0 # _ \<Rightarrow>
     (case get_coeff_offset arg0 of
        Inl err \<Rightarrow> Inl err
      | Inr (coeff, offset) \<Rightarrow>
     (case offset of
        [] \<Rightarrow> Inl IndexError
      | offset0 # _ \<Rightarrow>
     (case group_constraints (constraints problem) of
        Inl err \<Rightarrow> Inl err
      | Inr cmap \<Rightarrow>
     (case group_coeff_offset (cm_Zero cmap) EXP_CONE_ORDER of
        Inl err \<Rightarrow> Inl err
      | Inr (A, b) \<Rightarrow>
     (let neq_constr = cm_NonPos cmap @ cm_SOC cmap @ cm_ExpCone cmap in
      case group_coeff_offset neq_constr EXP_CONE_ORDER of
        Inl err \<Rightarrow> Inl err
      | Inr (G, h) \<Rightarrow>
          Inr (\<lparr>data_C = concat coeff,
                data_OFFSET = offset,
                data_A = A,
                data_B = b,
                data_DIMS =
                  \<lparr>dims_l = sum_list (map (\<lambda>c. prod_list (constr_size c)) (cm_NonPos cmap)),
                   dims_q = concat (map cone_sizes (cm_SOC cmap)),
                   dims_e = sum_list (map num_cones (cm_ExpCone cmap))\<rparr>,
                data_G = G,
                data_H = h\<rparr>,
               \<lparr>VAR_ID = var0,
                OFFSET = offset0,
                EQ_CONSTR = cm_Zero cmap,
                NEQ_CONSTR = neq_constr\<rparr>))))))))"

subsection \<open>invert\<close>

text \<open>
  \<open>ECOS.invert\<close>. \<open>SOLUTION_PRESENT\<close> is the list \<open>s.SOLUTION_PRESENT\<close> of
  \<open>cvxpy.settings\<close>, which is not among the sources: a parameter. The lookup
  \<open>STATUS_MAP[exitFlag]\<close> comes first and raises \<open>KeyError\<close> on a code that is not a key.
\<close>

definition timing_attr :: "'a ecos_solution \<Rightarrow> (attr_key \<rightharpoonup> 'a attr_val)" where
  "timing_attr solution =
     [SOLVE_TIME \<mapsto> FloatVal (tsolve (timing (sol_info solution))),
      SETUP_TIME \<mapsto> FloatVal (tsetup (timing (sol_info solution))),
      NUM_ITERS \<mapsto> IntVal (info_iter (sol_info solution))]"

definition ECOS_invert ::
  "status list \<Rightarrow> ('a::plus) ecos_solution \<Rightarrow> 'a inverse_data \<Rightarrow> error + 'a solution" where
  "ECOS_invert SOLUTION_PRESENT solution inverse_data =
     (case STATUS_MAP (exitFlag (sol_info solution)) of
        None \<Rightarrow> Inl (KeyError (exitFlag (sol_info solution)))
      | Some st \<Rightarrow>
          (let attrs = timing_attr solution in
           if st \<in> set SOLUTION_PRESENT then
             (let primal_val = pcost (sol_info solution);
                  opt = primal_val + OFFSET inverse_data;
                  primal = [VAR_ID inverse_data \<mapsto> sol_x solution];
                  eq_dual = get_dual_values (sol_y solution) (EQ_CONSTR inverse_data);
                  leq_dual = get_dual_values (sol_z solution) (NEQ_CONSTR inverse_data)
              in Inr \<lparr>sol_status = st, opt_val = Some opt, primal_vars = primal,
                      dual_vars = eq_dual ++ leq_dual, attr = attrs\<rparr>)
           else Inr (failure_solution st)))"

subsection \<open>solve_via_data\<close>

text \<open>
  \<open>ECOS.solve_via_data\<close>. The solver \<open>ecos.solve\<close> is a parameter: a function of the
  arguments of the call, returning a raw result or raising. The call passes
  \<open>verbose=verbose\<close> and \<open>**solver_opts\<close>; Python raises \<open>TypeError\<close> before the call when
  \<open>solver_opts\<close> has the key \<open>verbose\<close> too.
\<close>

record ('a, 'o) ecos_call =
  call_c :: "'a list"
  call_G :: "'a list list"
  call_h :: "'a list"
  call_dims :: dims
  call_A :: "'a list list"
  call_b :: "'a list"
  call_verbose :: bool
  call_opts :: "string \<rightharpoonup> 'o"

definition ecos_solve_args ::
  "'a solver_data \<Rightarrow> bool \<Rightarrow> bool \<Rightarrow> (string \<rightharpoonup> 'o) \<Rightarrow> error + ('a, 'o) ecos_call" where
  "ecos_solve_args data warm_start verbose solver_opts =
     (if solver_opts ''verbose'' \<noteq> None then Inl TypeError
      else Inr \<lparr>call_c = data_C data, call_G = data_G data, call_h = data_H data,
                call_dims = data_DIMS data, call_A = data_A data, call_b = data_B data,
                call_verbose = verbose, call_opts = solver_opts\<rparr>)"

definition ECOS_solve_via_data ::
  "(('a, 'o) ecos_call \<Rightarrow> error + 'r) \<Rightarrow>
   'a solver_data \<Rightarrow> bool \<Rightarrow> bool \<Rightarrow> (string \<rightharpoonup> 'o) \<Rightarrow> error + 'r" where
  "ECOS_solve_via_data ecos_solve data warm_start verbose solver_opts =
     (case ecos_solve_args data warm_start verbose solver_opts of
        Inl err \<Rightarrow> Inl err
      | Inr args \<Rightarrow> ecos_solve args)"

section \<open>Concrete inputs\<close>

text \<open>
  The inputs at which the theorems below are instantiated. Expressions are given by their
  extraction (a matrix and an offset vector), so the sample extraction returns its
  argument. The sample extraction of a constraint gives it as many rows as it has
  elements: row \<open>k\<close> holds the constraint's id and \<open>k\<close>, with the offset \<open>100 * id + k\<close>.
  The sample stacking is the row-stacking of these extractions.
\<close>

definition example_get_coeff_offset ::
  "real list list \<times> real list \<Rightarrow> error + real list list \<times> real list" where
  "example_get_coeff_offset e = Inr e"

definition example_extract :: "constr \<Rightarrow> error + real list list \<times> real list" where
  "example_extract c =
     Inr (map (\<lambda>k. [real (constr_id c), real k]) [0..<elem_count c],
          map (\<lambda>k. real (100 * constr_id c + k)) [0..<elem_count c])"

definition example_group_coeff_offset ::
  "constr list \<Rightarrow> nat list \<Rightarrow> error + real list list \<times> real list" where
  "example_group_coeff_offset = row_stacking example_extract"

text \<open>One constraint of each of the four classes, a second inequality, and one of another class.\<close>

definition example_exp :: constr where
  "example_exp = \<lparr>constr_id = 21, kind = ExpCone, constr_size = [1, 1], cone_sizes = [], num_cones = 1\<rparr>"

definition example_zero :: constr where
  "example_zero = \<lparr>constr_id = 22, kind = Zero, constr_size = [1, 1], cone_sizes = [], num_cones = 0\<rparr>"

definition example_soc :: constr where
  "example_soc = \<lparr>constr_id = 23, kind = SOC, constr_size = [1, 1], cone_sizes = [3], num_cones = 1\<rparr>"

definition example_nonpos :: constr where
  "example_nonpos = \<lparr>constr_id = 24, kind = NonPos, constr_size = [2, 1], cone_sizes = [], num_cones = 0\<rparr>"

definition example_nonpos2 :: constr where
  "example_nonpos2 = \<lparr>constr_id = 25, kind = NonPos, constr_size = [1, 1], cone_sizes = [], num_cones = 0\<rparr>"

definition example_psd :: constr where
  "example_psd = \<lparr>constr_id = 26, kind = OtherKind ''PSD'', constr_size = [2, 2], cone_sizes = [], num_cones = 0\<rparr>"

text \<open>Minimize \<open>2x + 5\<close> over the variable block 7, under the five supported constraints.\<close>

definition example_problem :: "(real list list \<times> real list) problem" where
  "example_problem =
     \<lparr>objective_sense = Minimize,
      objective_args = [([[2]], [5])],
      variables = [7],
      constraints = [example_exp, example_zero, example_soc, example_nonpos, example_nonpos2]\<rparr>"

text \<open>A maximization over two variable blocks, without constraints.\<close>

definition example_maximize :: "(real list list \<times> real list) problem" where
  "example_maximize =
     \<lparr>objective_sense = Maximize,
      objective_args = [([[2]], [5])],
      variables = [7, 8],
      constraints = []\<rparr>"

text \<open>A problem without variables whose only constraint is of an unsupported class.\<close>

definition example_no_variables :: "(real list list \<times> real list) problem" where
  "example_no_variables =
     \<lparr>objective_sense = Minimize,
      objective_args = [([[2]], [5])],
      variables = [],
      constraints = [example_psd]\<rparr>"

text \<open>The supported problem with a constraint of an unsupported class added.\<close>

definition example_unsupported :: "(real list list \<times> real list) problem" where
  "example_unsupported =
     \<lparr>objective_sense = Minimize,
      objective_args = [([[2]], [5])],
      variables = [7],
      constraints = [example_exp, example_zero, example_psd, example_soc]\<rparr>"

text \<open>The inverse data that \<open>apply\<close> records for \<open>example_problem\<close>.\<close>

definition example_inverse_data :: "real inverse_data" where
  "example_inverse_data =
     \<lparr>VAR_ID = 7, OFFSET = 5, EQ_CONSTR = [example_zero],
      NEQ_CONSTR = [example_nonpos, example_nonpos2, example_soc, example_exp]\<rparr>"

text \<open>
  A raw result with a given exit code: primal cost 3, one equality dual, nine cone duals
  (the last three, the exponential cone's, in the solver's row order).
\<close>

definition example_result :: "int \<Rightarrow> real ecos_solution" where
  "example_result code =
     \<lparr>sol_info = \<lparr>exitFlag = code, pcost = 3,
                   timing = \<lparr>tsolve = 1 / 2, tsetup = 1 / 4\<rparr>, info_iter = 9\<rparr>,
      sol_x = [- 1],
      sol_y = [4],
      sol_z = [1, 2, 3, 4, 5, 6, 7, 9, 8]\<rparr>"

text \<open>A value of \<open>s.SOLUTION_PRESENT\<close>: the two statuses the specification names outright.\<close>

definition example_SOLUTION_PRESENT :: "status list" where
  "example_SOLUTION_PRESENT = [OPTIMAL, OPTIMAL_INACCURATE]"

section \<open>Facts about the helpers and the concrete inputs\<close>

lemma STATUS_MAP_dom:
  "dom STATUS_MAP = {0, 1, 2, 10, 11, 12, - 1, - 2, - 3, - 4, - 7}"
  by (auto simp: STATUS_MAP_def dom_def split: if_splits)

lemma group_constraints_Inr:
  assumes "group_constraints cs = Inr cmap"
  shows "list_all recognized cs"
    and "cm_Zero cmap = filter (\<lambda>c. kind c = Zero) cs"
    and "cm_NonPos cmap = filter (\<lambda>c. kind c = NonPos) cs"
    and "cm_SOC cmap = filter (\<lambda>c. kind c = SOC) cs"
    and "cm_ExpCone cmap = filter (\<lambda>c. kind c = ExpCone) cs"
  using assms by (auto simp: group_constraints_def split: if_splits)

text \<open>What a successful run of \<open>apply\<close> went through, statement by statement.\<close>

lemma ECOS_apply_Inr:
  assumes "ECOS_apply gco gcoff p = Inr (data, inverse_data)"
  shows "\<exists>var0 vars arg0 args coeff offset0 offs cmap A b G h.
     variables p = var0 # vars \<and>
     objective_args p = arg0 # args \<and>
     gco arg0 = Inr (coeff, offset0 # offs) \<and>
     group_constraints (constraints p) = Inr cmap \<and>
     gcoff (cm_Zero cmap) EXP_CONE_ORDER = Inr (A, b) \<and>
     gcoff (cm_NonPos cmap @ cm_SOC cmap @ cm_ExpCone cmap) EXP_CONE_ORDER = Inr (G, h) \<and>
     data = \<lparr>data_C = concat coeff, data_OFFSET = offset0 # offs, data_A = A, data_B = b,
             data_DIMS =
               \<lparr>dims_l = sum_list (map (\<lambda>c. prod_list (constr_size c)) (cm_NonPos cmap)),
                dims_q = concat (map cone_sizes (cm_SOC cmap)),
                dims_e = sum_list (map num_cones (cm_ExpCone cmap))\<rparr>,
             data_G = G, data_H = h\<rparr> \<and>
     inverse_data = \<lparr>VAR_ID = var0, OFFSET = offset0, EQ_CONSTR = cm_Zero cmap,
                     NEQ_CONSTR = cm_NonPos cmap @ cm_SOC cmap @ cm_ExpCone cmap\<rparr>"
  using assms
  by (auto simp: ECOS_apply_def Let_def split: list.splits sum.splits prod.splits)

lemma group_constraints_recognized:
  assumes "list_all (\<lambda>c. kind c \<in> {Zero, NonPos, SOC, ExpCone}) cs"
  shows "group_constraints cs =
           Inr \<lparr>cm_Zero = filter (\<lambda>c. kind c = Zero) cs,
                cm_NonPos = filter (\<lambda>c. kind c = NonPos) cs,
                cm_SOC = filter (\<lambda>c. kind c = SOC) cs,
                cm_ExpCone = filter (\<lambda>c. kind c = ExpCone) cs\<rparr>"
proof -
  have "list_all recognized cs"
    using assms by (auto simp: list_all_iff recognized_def)
  then show ?thesis
    by (simp add: group_constraints_def)
qed

text \<open>
  A run of \<open>apply\<close> on a supported problem: every statement succeeds, and the result is
  the pair of dictionaries it fills.
\<close>

lemma ECOS_apply_succeeds:
  assumes "variables p = var0 # vars"
      and "objective_args p = arg0 # args"
      and "gco arg0 = Inr (coeff, offset0 # offs)"
      and "list_all (\<lambda>c. kind c \<in> {Zero, NonPos, SOC, ExpCone}) (constraints p)"
      and "gcoff (filter (\<lambda>c. kind c = Zero) (constraints p)) EXP_CONE_ORDER = Inr (A, b)"
      and "gcoff (filter (\<lambda>c. kind c = NonPos) (constraints p)
                  @ filter (\<lambda>c. kind c = SOC) (constraints p)
                  @ filter (\<lambda>c. kind c = ExpCone) (constraints p)) EXP_CONE_ORDER = Inr (G, h)"
  shows "ECOS_apply gco gcoff p =
           Inr (\<lparr>data_C = concat coeff, data_OFFSET = offset0 # offs, data_A = A, data_B = b,
                 data_DIMS =
                   \<lparr>dims_l = sum_list (map (\<lambda>c. prod_list (constr_size c))
                                        (filter (\<lambda>c. kind c = NonPos) (constraints p))),
                    dims_q = concat (map cone_sizes (filter (\<lambda>c. kind c = SOC) (constraints p))),
                    dims_e = sum_list (map num_cones
                                        (filter (\<lambda>c. kind c = ExpCone) (constraints p)))\<rparr>,
                 data_G = G, data_H = h\<rparr>,
                \<lparr>VAR_ID = var0, OFFSET = offset0,
                 EQ_CONSTR = filter (\<lambda>c. kind c = Zero) (constraints p),
                 NEQ_CONSTR = filter (\<lambda>c. kind c = NonPos) (constraints p)
                              @ filter (\<lambda>c. kind c = SOC) (constraints p)
                              @ filter (\<lambda>c. kind c = ExpCone) (constraints p)\<rparr>)"
  using assms(1,2,3,5,6) group_constraints_recognized [OF assms(4)]
  by (simp add: ECOS_apply_def)

text \<open>The rows of a stacking are the blocks of the constraints, one after the other.\<close>

lemma row_stacking_blocks:
  assumes "row_stacking extraction cs order = Inr (M, d)"
  shows "\<exists>blocks. list_all2 (\<lambda>c blk. constr_block extraction order c = Inr blk) cs blocks
           \<and> M = concat (map fst blocks) \<and> d = concat (map snd blocks)"
  using assms
proof (induction cs arbitrary: M d)
  case Nil
  then show ?case by simp
next
  case (Cons c cs)
  from Cons.prems obtain coeff offset coeffs offsets
    where blk: "constr_block extraction order c = Inr (coeff, offset)"
      and rest: "row_stacking extraction cs order = Inr (coeffs, offsets)"
      and M: "M = coeff @ coeffs" and d: "d = offset @ offsets"
    by (auto split: sum.splits prod.splits)
  from Cons.IH [OF rest] obtain blocks
    where "list_all2 (\<lambda>c blk. constr_block extraction order c = Inr blk) cs blocks"
      and "coeffs = concat (map fst blocks)" and "offsets = concat (map snd blocks)"
    by blast
  then have "list_all2 (\<lambda>c blk. constr_block extraction order c = Inr blk)
               (c # cs) ((coeff, offset) # blocks)
             \<and> M = concat (map fst ((coeff, offset) # blocks))
             \<and> d = concat (map snd ((coeff, offset) # blocks))"
    using blk M d by simp
  then show ?case by blast
qed

text \<open>The sample extraction and stacking on the sample constraints.\<close>

lemma example_extract_exp:
  "example_extract example_exp = Inr ([[21, 0], [21, 1], [21, 2]], [2100, 2101, 2102])"
  by (simp add: example_extract_def example_exp_def elem_count_def upt_rec)

lemma example_block_exp:
  "constr_block example_extract EXP_CONE_ORDER example_exp =
     Inr ([[21, 0], [21, 2], [21, 1]], [2100, 2102, 2101])"
  by (simp add: constr_block_def example_extract_exp)
     (simp add: example_exp_def EXP_CONE_ORDER_def permute_rows_def)

lemma example_block_zero:
  "constr_block example_extract EXP_CONE_ORDER example_zero = Inr ([[22, 0]], [2200])"
  by (simp add: constr_block_def example_extract_def example_zero_def elem_count_def upt_rec)

lemma example_block_soc:
  "constr_block example_extract EXP_CONE_ORDER example_soc =
     Inr ([[23, 0], [23, 1], [23, 2]], [2300, 2301, 2302])"
  by (simp add: constr_block_def example_extract_def example_soc_def elem_count_def upt_rec)

lemma example_block_nonpos:
  "constr_block example_extract EXP_CONE_ORDER example_nonpos =
     Inr ([[24, 0], [24, 1]], [2400, 2401])"
  by (simp add: constr_block_def example_extract_def example_nonpos_def elem_count_def upt_rec)

lemma example_block_nonpos2:
  "constr_block example_extract EXP_CONE_ORDER example_nonpos2 = Inr ([[25, 0]], [2500])"
  by (simp add: constr_block_def example_extract_def example_nonpos2_def elem_count_def upt_rec)

lemma example_stacking_eq:
  "example_group_coeff_offset [example_zero] EXP_CONE_ORDER = Inr ([[22, 0]], [2200])"
  by (simp add: example_group_coeff_offset_def example_block_zero)

lemma example_stacking_neq:
  "example_group_coeff_offset [example_nonpos, example_nonpos2, example_soc, example_exp]
     EXP_CONE_ORDER =
   Inr ([[24, 0], [24, 1], [25, 0], [23, 0], [23, 1], [23, 2], [21, 0], [21, 2], [21, 1]],
        [2400, 2401, 2500, 2300, 2301, 2302, 2100, 2102, 2101])"
  by (simp add: example_group_coeff_offset_def example_block_nonpos example_block_nonpos2
      example_block_soc example_block_exp)

lemma example_problem_filters:
  "filter (\<lambda>c. kind c = Zero) (constraints example_problem) = [example_zero]"
  "filter (\<lambda>c. kind c = NonPos) (constraints example_problem) = [example_nonpos, example_nonpos2]"
  "filter (\<lambda>c. kind c = SOC) (constraints example_problem) = [example_soc]"
  "filter (\<lambda>c. kind c = ExpCone) (constraints example_problem) = [example_exp]"
  by (simp_all add: example_problem_def example_exp_def example_zero_def example_soc_def
      example_nonpos_def example_nonpos2_def)

lemma example_problem_supported:
  "variables example_problem = 7 # []"
  "objective_args example_problem = ([[2]], [5]) # []"
  "example_get_coeff_offset ([[2]], [5]) = Inr ([[2]], 5 # [])"
  "list_all (\<lambda>c. kind c \<in> {Zero, NonPos, SOC, ExpCone}) (constraints example_problem)"
  "example_group_coeff_offset (filter (\<lambda>c. kind c = Zero) (constraints example_problem))
     EXP_CONE_ORDER = Inr ([[22, 0]], [2200])"
  "example_group_coeff_offset
     (filter (\<lambda>c. kind c = NonPos) (constraints example_problem)
      @ filter (\<lambda>c. kind c = SOC) (constraints example_problem)
      @ filter (\<lambda>c. kind c = ExpCone) (constraints example_problem)) EXP_CONE_ORDER =
   Inr ([[24, 0], [24, 1], [25, 0], [23, 0], [23, 1], [23, 2], [21, 0], [21, 2], [21, 1]],
        [2400, 2401, 2500, 2300, 2301, 2302, 2100, 2102, 2101])"
proof -
  show "variables example_problem = 7 # []"
    and "objective_args example_problem = ([[2]], [5]) # []"
    by (simp_all add: example_problem_def)
  show "example_get_coeff_offset ([[2]], [5]) = Inr ([[2]], 5 # [])"
    by (simp add: example_get_coeff_offset_def)
  show "list_all (\<lambda>c. kind c \<in> {Zero, NonPos, SOC, ExpCone}) (constraints example_problem)"
    by (simp add: example_problem_def example_exp_def example_zero_def example_soc_def
        example_nonpos_def example_nonpos2_def)
  show "example_group_coeff_offset (filter (\<lambda>c. kind c = Zero) (constraints example_problem))
     EXP_CONE_ORDER = Inr ([[22, 0]], [2200])"
    by (simp add: example_problem_filters example_stacking_eq)
  show "example_group_coeff_offset
     (filter (\<lambda>c. kind c = NonPos) (constraints example_problem)
      @ filter (\<lambda>c. kind c = SOC) (constraints example_problem)
      @ filter (\<lambda>c. kind c = ExpCone) (constraints example_problem)) EXP_CONE_ORDER =
   Inr ([[24, 0], [24, 1], [25, 0], [23, 0], [23, 1], [23, 2], [21, 0], [21, 2], [21, 1]],
        [2400, 2401, 2500, 2300, 2301, 2302, 2100, 2102, 2101])"
    by (simp add: example_problem_filters example_stacking_neq)
qed

lemma example_problem_apply:
  "ECOS_apply example_get_coeff_offset example_group_coeff_offset example_problem =
     Inr (\<lparr>data_C = [2], data_OFFSET = [5], data_A = [[22, 0]], data_B = [2200],
           data_DIMS = \<lparr>dims_l = 3, dims_q = [3], dims_e = 1\<rparr>,
           data_G = [[24, 0], [24, 1], [25, 0], [23, 0], [23, 1], [23, 2],
                     [21, 0], [21, 2], [21, 1]],
           data_H = [2400, 2401, 2500, 2300, 2301, 2302, 2100, 2102, 2101]\<rparr>,
          example_inverse_data)"
  using ECOS_apply_succeeds [where gco = example_get_coeff_offset
      and gcoff = example_group_coeff_offset, OF example_problem_supported]
  by (simp add: example_problem_filters example_inverse_data_def)
     (simp add: example_exp_def example_soc_def example_nonpos_def example_nonpos2_def)

text \<open>The failures of \<open>apply\<close> before grouping, and what \<open>apply\<close> does not read.\<close>

lemma apply_no_variables: "variables p = [] \<Longrightarrow> ECOS_apply gco gcoff p = Inl IndexError"
  by (simp add: ECOS_apply_def)

lemma apply_no_args: "objective_args p = [] \<Longrightarrow> ECOS_apply gco gcoff p = Inl IndexError"
  by (simp add: ECOS_apply_def split: list.splits)

lemma apply_empty_offset:
  "variables p = var0 # vars \<Longrightarrow> objective_args p = arg0 # args \<Longrightarrow> gco arg0 = Inr (coeff, [])
   \<Longrightarrow> ECOS_apply gco gcoff p = Inl IndexError"
  by (simp add: ECOS_apply_def)

lemma apply_extraction_error:
  "variables p = var0 # vars \<Longrightarrow> objective_args p = arg0 # args \<Longrightarrow> gco arg0 = Inl err
   \<Longrightarrow> ECOS_apply gco gcoff p = Inl err"
  by (simp add: ECOS_apply_def)

lemma apply_sense: "ECOS_apply gco gcoff (p\<lparr>objective_sense := sn\<rparr>) = ECOS_apply gco gcoff p"
  by (simp add: ECOS_apply_def cong: list.case_cong sum.case_cong prod.case_cong)

lemma apply_first_variable:
  "variables p = var0 # vars \<Longrightarrow>
   ECOS_apply gco gcoff (p\<lparr>variables := var0 # vars'\<rparr>) = ECOS_apply gco gcoff p"
  by (simp add: ECOS_apply_def cong: list.case_cong sum.case_cong prod.case_cong)

text \<open>
  The exponential cone order is its own inverse, and the dual scatter gives every
  constraint of a list with distinct ids its slice of the vector, in list order.
\<close>

lemma inverse_order_EXP_CONE_ORDER: "inverse_order EXP_CONE_ORDER = [0, 2, 1]"
  by (simp add: inverse_order_def EXP_CONE_ORDER_def upt_rec)

lemma permute_rows_EXP_CONE_ORDER:
  "permute_rows EXP_CONE_ORDER [r0, r1, r2] = [r0, r2, r1]"
  by (simp add: permute_rows_def EXP_CONE_ORDER_def)

lemma permute_rows_inverse_order:
  "permute_rows (inverse_order EXP_CONE_ORDER) [r0, r1, r2] = [r0, r2, r1]"
  by (simp add: inverse_order_EXP_CONE_ORDER permute_rows_def)

lemma permute_cones_round_trip:
  "permute_cones (inverse_order EXP_CONE_ORDER) (permute_cones EXP_CONE_ORDER rows) = rows"
proof (induction "EXP_CONE_ORDER" rows rule: permute_cones.induct)
  case (1 r0 r1 r2 rest)
  then show ?case
    by (simp add: permute_rows_EXP_CONE_ORDER permute_rows_inverse_order)
qed simp_all

lemma dom_get_dual_values: "dom (get_dual_values v cs) = constr_id ` set cs"
  by (induction cs arbitrary: v) auto

lemma get_dual_values_nth:
  assumes "distinct (map constr_id cs)" and "i < length cs"
  shows "get_dual_values v cs (constr_id (cs ! i)) =
           Some (dual_block (cs ! i)
                   (take (elem_count (cs ! i)) (drop (sum_list (map elem_count (take i cs))) v)))"
  using assms
proof (induction cs arbitrary: v i)
  case Nil
  then show ?case by simp
next
  case (Cons c cs)
  show ?case
  proof (cases i)
    case 0
    have "constr_id c \<notin> dom (get_dual_values (drop (elem_count c) v) cs)"
      using Cons.prems(1) by (simp add: dom_get_dual_values)
    then show ?thesis
      using 0 by (simp add: map_add_def domIff split: option.splits)
  next
    case (Suc j)
    have "get_dual_values (drop (elem_count c) v) cs (constr_id (cs ! j)) =
            Some (dual_block (cs ! j)
                   (take (elem_count (cs ! j))
                      (drop (sum_list (map elem_count (take j cs))) (drop (elem_count c) v))))"
      using Cons.IH [of j "drop (elem_count c) v"] Cons.prems Suc by simp
    then show ?thesis
      using Suc by (simp add: map_add_def add.commute)
  qed
qed

section \<open>Status translation\<close>

text \<open>
  Claim C1. For every raw result whose exit code is a key of the status table, \<open>invert\<close>
  returns a Solution whose status is the table's image of the code: 0 gives OPTIMAL, 1
  INFEASIBLE, 2 UNBOUNDED, 10, 11 and 12 the inaccurate variants, and each of -1, -2, -3,
  -4, -7 SOLVER_ERROR. For every other exit code \<open>invert\<close> fails with the \<open>KeyError\<close> of
  the table lookup (the specification's UnknownExitCode) and returns no Solution.
\<close>

theorem invert_status_totality:
  fixes solution :: "('a::plus) ecos_solution"
  assumes "code = exitFlag (sol_info solution)"
  shows "(code = 0 \<longrightarrow>
            (\<exists>sol. ECOS_invert SP solution inverse_data = Inr sol \<and> sol_status sol = OPTIMAL))
       \<and> (code = 1 \<longrightarrow>
            (\<exists>sol. ECOS_invert SP solution inverse_data = Inr sol \<and> sol_status sol = INFEASIBLE))
       \<and> (code = 2 \<longrightarrow>
            (\<exists>sol. ECOS_invert SP solution inverse_data = Inr sol \<and> sol_status sol = UNBOUNDED))
       \<and> (code = 10 \<longrightarrow>
            (\<exists>sol. ECOS_invert SP solution inverse_data = Inr sol
                 \<and> sol_status sol = OPTIMAL_INACCURATE))
       \<and> (code = 11 \<longrightarrow>
            (\<exists>sol. ECOS_invert SP solution inverse_data = Inr sol
                 \<and> sol_status sol = INFEASIBLE_INACCURATE))
       \<and> (code = 12 \<longrightarrow>
            (\<exists>sol. ECOS_invert SP solution inverse_data = Inr sol
                 \<and> sol_status sol = UNBOUNDED_INACCURATE))
       \<and> (code \<in> {- 1, - 2, - 3, - 4, - 7} \<longrightarrow>
            (\<exists>sol. ECOS_invert SP solution inverse_data = Inr sol
                 \<and> sol_status sol = SOLVER_ERROR))
       \<and> (code \<notin> {0, 1, 2, 10, 11, 12, - 1, - 2, - 3, - 4, - 7} \<longrightarrow>
            ECOS_invert SP solution inverse_data = Inl (KeyError code))"
  using assms
  by (auto simp: ECOS_invert_def STATUS_MAP_def failure_solution_def Let_def)

theorem invert_status_totality_witness:
  "(\<exists>sol. ECOS_invert example_SOLUTION_PRESENT (example_result 10) example_inverse_data = Inr sol
         \<and> sol_status sol = OPTIMAL_INACCURATE)
   \<and> (\<exists>sol. ECOS_invert example_SOLUTION_PRESENT (example_result (- 4)) example_inverse_data
               = Inr sol
         \<and> sol_status sol = SOLVER_ERROR)
   \<and> ECOS_invert example_SOLUTION_PRESENT (example_result 3) example_inverse_data
       = Inl (KeyError 3)"
proof -
  have c: "exitFlag (sol_info (example_result k)) = k" for k
    by (simp add: example_result_def)
  show ?thesis
    using
      invert_status_totality [OF c [symmetric], of 10 example_SOLUTION_PRESENT example_inverse_data]
      invert_status_totality [OF c [symmetric], of "- 4" example_SOLUTION_PRESENT example_inverse_data]
      invert_status_totality [OF c [symmetric], of 3 example_SOLUTION_PRESENT example_inverse_data]
    by simp
qed

section \<open>The forward transform\<close>

text \<open>
  Claim C3. On every supported problem (it has a variable block, its objective has an
  argument whose extraction succeeds with an offset vector that is not empty, its
  constraints are of the four classes, and the two stackings succeed) \<open>apply\<close> returns.
  The list it records as the non-equality constraints is the concatenation of the
  inequality (NonPos) constraints, the second-order cone constraints and the exponential
  cone constraints of the problem, in this order, each sublist in its original relative
  order, and \<open>G\<close> and \<open>h\<close> are the stacking of exactly this list under the exponential
  cone order. The list it records as the equality constraints is the problem's equality
  constraints in their original order, and \<open>A\<close> and \<open>b\<close> are the stacking of exactly that
  list. When the stacking is the row-stacking of the constraints' own extractions, the
  rows of \<open>A\<close> and \<open>b\<close> are the blocks of the recorded equality constraints, one block per
  constraint in list order, and the rows of \<open>G\<close> and \<open>h\<close> are the blocks of the recorded
  non-equality constraints, one block per constraint in list order.
\<close>

theorem apply_constraint_order:
  assumes "variables p = var0 # vars"
      and "objective_args p = arg0 # args"
      and "gco arg0 = Inr (coeff, offset0 # offs)"
      and "list_all (\<lambda>c. kind c \<in> {Zero, NonPos, SOC, ExpCone}) (constraints p)"
      and "gcoff (filter (\<lambda>c. kind c = Zero) (constraints p)) EXP_CONE_ORDER = Inr (A, b)"
      and "gcoff (filter (\<lambda>c. kind c = NonPos) (constraints p)
                  @ filter (\<lambda>c. kind c = SOC) (constraints p)
                  @ filter (\<lambda>c. kind c = ExpCone) (constraints p)) EXP_CONE_ORDER = Inr (G, h)"
  shows "\<exists>data inverse_data.
           ECOS_apply gco gcoff p = Inr (data, inverse_data)
         \<and> NEQ_CONSTR inverse_data =
             filter (\<lambda>c. kind c = NonPos) (constraints p)
             @ filter (\<lambda>c. kind c = SOC) (constraints p)
             @ filter (\<lambda>c. kind c = ExpCone) (constraints p)
         \<and> gcoff (NEQ_CONSTR inverse_data) EXP_CONE_ORDER = Inr (data_G data, data_H data)
         \<and> EQ_CONSTR inverse_data = filter (\<lambda>c. kind c = Zero) (constraints p)
         \<and> gcoff (EQ_CONSTR inverse_data) EXP_CONE_ORDER = Inr (data_A data, data_B data)
         \<and> (\<forall>extraction. gcoff = row_stacking extraction \<longrightarrow>
               (\<exists>eq_blocks neq_blocks.
                   list_all2 (\<lambda>c blk. constr_block extraction EXP_CONE_ORDER c = Inr blk)
                     (EQ_CONSTR inverse_data) eq_blocks
                 \<and> data_A data = concat (map fst eq_blocks)
                 \<and> data_B data = concat (map snd eq_blocks)
                 \<and> list_all2 (\<lambda>c blk. constr_block extraction EXP_CONE_ORDER c = Inr blk)
                     (NEQ_CONSTR inverse_data) neq_blocks
                 \<and> data_G data = concat (map fst neq_blocks)
                 \<and> data_H data = concat (map snd neq_blocks)))"
proof -
  let ?eq = "filter (\<lambda>c. kind c = Zero) (constraints p)"
  let ?neq = "filter (\<lambda>c. kind c = NonPos) (constraints p)
              @ filter (\<lambda>c. kind c = SOC) (constraints p)
              @ filter (\<lambda>c. kind c = ExpCone) (constraints p)"
  have blocks: "\<exists>eq_blocks neq_blocks.
                   list_all2 (\<lambda>c blk. constr_block extraction EXP_CONE_ORDER c = Inr blk)
                     ?eq eq_blocks
                 \<and> A = concat (map fst eq_blocks) \<and> b = concat (map snd eq_blocks)
                 \<and> list_all2 (\<lambda>c blk. constr_block extraction EXP_CONE_ORDER c = Inr blk)
                     ?neq neq_blocks
                 \<and> G = concat (map fst neq_blocks) \<and> h = concat (map snd neq_blocks)"
    if "gcoff = row_stacking extraction" for extraction
    using row_stacking_blocks [of extraction ?eq EXP_CONE_ORDER A b]
      row_stacking_blocks [of extraction ?neq EXP_CONE_ORDER G h] assms(5,6) that
    by blast
  show ?thesis
    using ECOS_apply_succeeds [where gco = gco and gcoff = gcoff, OF assms] assms(5,6) blocks by simp
qed

theorem apply_constraint_order_witness:
  "variables example_problem = 7 # []
   \<and> objective_args example_problem = ([[2]], [5]) # []
   \<and> example_get_coeff_offset ([[2]], [5]) = Inr ([[2]], 5 # [])
   \<and> list_all (\<lambda>c. kind c \<in> {Zero, NonPos, SOC, ExpCone}) (constraints example_problem)
   \<and> example_group_coeff_offset (filter (\<lambda>c. kind c = Zero) (constraints example_problem))
         EXP_CONE_ORDER = Inr ([[22, 0]], [2200])
   \<and> example_group_coeff_offset
         (filter (\<lambda>c. kind c = NonPos) (constraints example_problem)
          @ filter (\<lambda>c. kind c = SOC) (constraints example_problem)
          @ filter (\<lambda>c. kind c = ExpCone) (constraints example_problem)) EXP_CONE_ORDER =
       Inr ([[24, 0], [24, 1], [25, 0], [23, 0], [23, 1], [23, 2], [21, 0], [21, 2], [21, 1]],
            [2400, 2401, 2500, 2300, 2301, 2302, 2100, 2102, 2101])
   \<and> ECOS_apply example_get_coeff_offset example_group_coeff_offset example_problem =
       Inr (\<lparr>data_C = [2], data_OFFSET = [5], data_A = [[22, 0]], data_B = [2200],
             data_DIMS = \<lparr>dims_l = 3, dims_q = [3], dims_e = 1\<rparr>,
             data_G = [[24, 0], [24, 1], [25, 0], [23, 0], [23, 1], [23, 2],
                       [21, 0], [21, 2], [21, 1]],
             data_H = [2400, 2401, 2500, 2300, 2301, 2302, 2100, 2102, 2101]\<rparr>,
            example_inverse_data)
   \<and> NEQ_CONSTR example_inverse_data = [example_nonpos, example_nonpos2, example_soc, example_exp]
   \<and> EQ_CONSTR example_inverse_data = [example_zero]
   \<and> example_group_coeff_offset = row_stacking example_extract
   \<and> list_all2 (\<lambda>c blk. constr_block example_extract EXP_CONE_ORDER c = Inr blk)
         [example_zero] [([[22, 0]], [2200])]
   \<and> list_all2 (\<lambda>c blk. constr_block example_extract EXP_CONE_ORDER c = Inr blk)
         [example_nonpos, example_nonpos2, example_soc, example_exp]
         [([[24, 0], [24, 1]], [2400, 2401]),
          ([[25, 0]], [2500]),
          ([[23, 0], [23, 1], [23, 2]], [2300, 2301, 2302]),
          ([[21, 0], [21, 2], [21, 1]], [2100, 2102, 2101])]"
proof -
  have blocks:
    "list_all2 (\<lambda>c blk. constr_block example_extract EXP_CONE_ORDER c = Inr blk)
       [example_zero] [([[22, 0]], [2200])]"
    "list_all2 (\<lambda>c blk. constr_block example_extract EXP_CONE_ORDER c = Inr blk)
       [example_nonpos, example_nonpos2, example_soc, example_exp]
       [([[24, 0], [24, 1]], [2400, 2401]),
        ([[25, 0]], [2500]),
        ([[23, 0], [23, 1], [23, 2]], [2300, 2301, 2302]),
        ([[21, 0], [21, 2], [21, 1]], [2100, 2102, 2101])]"
    by (simp_all add: example_block_zero example_block_nonpos example_block_nonpos2
        example_block_soc example_block_exp)
  have lists:
    "NEQ_CONSTR example_inverse_data = [example_nonpos, example_nonpos2, example_soc, example_exp]"
    "EQ_CONSTR example_inverse_data = [example_zero]"
    by (simp_all add: example_inverse_data_def)
  show ?thesis
    using apply_constraint_order [where gco = example_get_coeff_offset and gcoff = example_group_coeff_offset,
        OF example_problem_supported]
      example_problem_supported example_problem_apply blocks lists
      example_group_coeff_offset_def
    by simp
qed

text \<open>
  Claim C7. On every supported problem \<open>apply\<close> returns, and in the solver arguments
  \<open>dims['l']\<close> is the sum over the inequality (NonPos) constraints of the product of the
  constraint's shape (its element count), \<open>dims['q']\<close> is the concatenation, in
  constraint order, of the cone sizes of the second-order cone constraints, and
  \<open>dims['e']\<close> is the sum of the numbers of cones of the exponential cone constraints.
\<close>

theorem apply_dims:
  assumes "variables p = var0 # vars"
      and "objective_args p = arg0 # args"
      and "gco arg0 = Inr (coeff, offset0 # offs)"
      and "list_all (\<lambda>c. kind c \<in> {Zero, NonPos, SOC, ExpCone}) (constraints p)"
      and "gcoff (filter (\<lambda>c. kind c = Zero) (constraints p)) EXP_CONE_ORDER = Inr (A, b)"
      and "gcoff (filter (\<lambda>c. kind c = NonPos) (constraints p)
                  @ filter (\<lambda>c. kind c = SOC) (constraints p)
                  @ filter (\<lambda>c. kind c = ExpCone) (constraints p)) EXP_CONE_ORDER = Inr (G, h)"
  shows "\<exists>data inverse_data.
           ECOS_apply gco gcoff p = Inr (data, inverse_data)
         \<and> dims_l (data_DIMS data) =
             sum_list (map (\<lambda>c. prod_list (constr_size c))
                           (filter (\<lambda>c. kind c = NonPos) (constraints p)))
         \<and> dims_q (data_DIMS data) =
             concat (map cone_sizes (filter (\<lambda>c. kind c = SOC) (constraints p)))
         \<and> dims_e (data_DIMS data) =
             sum_list (map num_cones (filter (\<lambda>c. kind c = ExpCone) (constraints p)))"
  using ECOS_apply_succeeds [where gco = gco and gcoff = gcoff, OF assms] by simp

theorem apply_dims_witness:
  "variables example_problem = 7 # []
   \<and> objective_args example_problem = ([[2]], [5]) # []
   \<and> example_get_coeff_offset ([[2]], [5]) = Inr ([[2]], 5 # [])
   \<and> list_all (\<lambda>c. kind c \<in> {Zero, NonPos, SOC, ExpCone}) (constraints example_problem)
   \<and> example_group_coeff_offset (filter (\<lambda>c. kind c = Zero) (constraints example_problem))
         EXP_CONE_ORDER = Inr ([[22, 0]], [2200])
   \<and> example_group_coeff_offset
         (filter (\<lambda>c. kind c = NonPos) (constraints example_problem)
          @ filter (\<lambda>c. kind c = SOC) (constraints example_problem)
          @ filter (\<lambda>c. kind c = ExpCone) (constraints example_problem)) EXP_CONE_ORDER =
       Inr ([[24, 0], [24, 1], [25, 0], [23, 0], [23, 1], [23, 2], [21, 0], [21, 2], [21, 1]],
            [2400, 2401, 2500, 2300, 2301, 2302, 2100, 2102, 2101])
   \<and> ECOS_apply example_get_coeff_offset example_group_coeff_offset example_problem =
       Inr (\<lparr>data_C = [2], data_OFFSET = [5], data_A = [[22, 0]], data_B = [2200],
             data_DIMS = \<lparr>dims_l = 3, dims_q = [3], dims_e = 1\<rparr>,
             data_G = [[24, 0], [24, 1], [25, 0], [23, 0], [23, 1], [23, 2],
                       [21, 0], [21, 2], [21, 1]],
             data_H = [2400, 2401, 2500, 2300, 2301, 2302, 2100, 2102, 2101]\<rparr>,
            example_inverse_data)
   \<and> sum_list (map (\<lambda>c. prod_list (constr_size c))
                (filter (\<lambda>c. kind c = NonPos) (constraints example_problem))) = 3
   \<and> concat (map cone_sizes (filter (\<lambda>c. kind c = SOC) (constraints example_problem))) = [3]
   \<and> sum_list (map num_cones (filter (\<lambda>c. kind c = ExpCone) (constraints example_problem))) = 1"
  using apply_dims [where gco = example_get_coeff_offset and gcoff = example_group_coeff_offset,
        OF example_problem_supported]
    example_problem_supported example_problem_apply
  by simp

text \<open>
  Claim C8, as amended. \<open>apply\<close> fails, returning no solver arguments, with \<open>IndexError\<close>
  when the problem has no variable block, when the objective has no argument or when the
  offset vector extracted from the objective's argument is empty, and with the extraction's
  own error when the extraction fails. It does not check that the objective is a
  minimization or that there is exactly one variable block: its result is the same for
  every class of the objective and for every list of variable blocks after the first.
\<close>

theorem apply_ignores_objective_class:
  "(variables p = [] \<or> objective_args p = [] \<longrightarrow> ECOS_apply gco gcoff p = Inl IndexError)
   \<and> (\<forall>var0 vars arg0 args coeff.
        variables p = var0 # vars \<and> objective_args p = arg0 # args \<and> gco arg0 = Inr (coeff, [])
        \<longrightarrow> ECOS_apply gco gcoff p = Inl IndexError)
   \<and> (\<forall>var0 vars arg0 args err.
        variables p = var0 # vars \<and> objective_args p = arg0 # args \<and> gco arg0 = Inl err
        \<longrightarrow> ECOS_apply gco gcoff p = Inl err)
   \<and> ECOS_apply gco gcoff (p\<lparr>objective_sense := sn\<rparr>) = ECOS_apply gco gcoff p
   \<and> (\<forall>var0 vars vars'. variables p = var0 # vars
        \<longrightarrow> ECOS_apply gco gcoff (p\<lparr>variables := var0 # vars'\<rparr>) = ECOS_apply gco gcoff p)"
  by (auto simp: apply_no_variables apply_no_args apply_empty_offset apply_extraction_error
      apply_sense apply_first_variable)

theorem apply_ignores_objective_class_witness:
  "variables example_no_variables = []
   \<and> ECOS_apply example_get_coeff_offset example_group_coeff_offset example_no_variables
       = Inl IndexError
   \<and> ECOS_apply example_get_coeff_offset example_group_coeff_offset
         (example_maximize\<lparr>objective_sense := Minimize\<rparr>)
       = ECOS_apply example_get_coeff_offset example_group_coeff_offset example_maximize
   \<and> variables example_maximize = 7 # [8]
   \<and> ECOS_apply example_get_coeff_offset example_group_coeff_offset
         (example_maximize\<lparr>variables := 7 # []\<rparr>)
       = ECOS_apply example_get_coeff_offset example_group_coeff_offset example_maximize"
proof -
  have v0: "variables example_no_variables = []"
    by (simp add: example_no_variables_def)
  have v2: "variables example_maximize = 7 # [8]"
    by (simp add: example_maximize_def)
  show ?thesis
    using v0 v2
      apply_ignores_objective_class [of example_no_variables example_get_coeff_offset
        example_group_coeff_offset Minimize]
      apply_ignores_objective_class [of example_maximize example_get_coeff_offset
        example_group_coeff_offset Minimize]
    by simp
qed

text \<open>
  Claim C8 as stated fails: on a maximization over two variable blocks \<open>apply\<close> returns
  solver arguments, recording the first block.
\<close>

theorem apply_maximize_counterexample:
  "objective_sense example_maximize = Maximize
   \<and> variables example_maximize = [7, 8]
   \<and> ECOS_apply example_get_coeff_offset example_group_coeff_offset example_maximize =
       Inr (\<lparr>data_C = [2], data_OFFSET = [5], data_A = [], data_B = [],
             data_DIMS = \<lparr>dims_l = 0, dims_q = [], dims_e = 0\<rparr>, data_G = [], data_H = []\<rparr>,
            \<lparr>VAR_ID = 7, OFFSET = 5, EQ_CONSTR = [], NEQ_CONSTR = []\<rparr>)"
  by (simp add: ECOS_apply_def example_maximize_def example_get_coeff_offset_def
      example_group_coeff_offset_def group_constraints_def)

text \<open>
  Claim C9. For every problem whose constraint list contains a constraint of a class
  outside Zero, NonPos, SOC and ExpCone (and which has a variable block and an objective
  whose argument's extraction succeeds with an offset vector that is not empty), \<open>apply\<close>
  fails with UnsupportedConstraint: the failure of the grouping reaches the caller, and no
  solver arguments are returned (\<open>apply\<close> itself calls no solver).
\<close>

theorem apply_unsupported_constraint:
  assumes "c \<in> set (constraints p)"
      and "kind c \<notin> {Zero, NonPos, SOC, ExpCone}"
      and "variables p = var0 # vars"
      and "objective_args p = arg0 # args"
      and "gco arg0 = Inr (coeff, offset0 # offs)"
  shows "ECOS_apply gco gcoff p = Inl UnsupportedConstraint"
proof -
  have "\<not> list_all recognized (constraints p)"
    using assms(1,2) by (auto simp: list_all_iff recognized_def)
  then have "group_constraints (constraints p) = Inl UnsupportedConstraint"
    by (simp add: group_constraints_def)
  then show ?thesis
    using assms(3,4,5) by (simp add: ECOS_apply_def)
qed

theorem apply_unsupported_constraint_witness:
  "example_psd \<in> set (constraints example_unsupported)
   \<and> kind example_psd \<notin> {Zero, NonPos, SOC, ExpCone}
   \<and> variables example_unsupported = 7 # []
   \<and> objective_args example_unsupported = ([[2]], [5]) # []
   \<and> example_get_coeff_offset ([[2]], [5]) = Inr ([[2]], 5 # [])
   \<and> ECOS_apply example_get_coeff_offset example_group_coeff_offset example_unsupported
       = Inl UnsupportedConstraint"
proof -
  have m: "example_psd \<in> set (constraints example_unsupported)"
    by (simp add: example_unsupported_def)
  have k: "kind example_psd \<notin> {Zero, NonPos, SOC, ExpCone}"
    by (simp add: example_psd_def)
  have v: "variables example_unsupported = 7 # []"
    by (simp add: example_unsupported_def)
  have a: "objective_args example_unsupported = ([[2]], [5]) # []"
    by (simp add: example_unsupported_def)
  have e: "example_get_coeff_offset ([[2]], [5]) = Inr ([[2]], 5 # [])"
    by (simp add: example_get_coeff_offset_def)
  show ?thesis
    using m k v a e
      apply_unsupported_constraint [where gco = example_get_coeff_offset
        and gcoff = example_group_coeff_offset, OF m k v a e]
    by simp
qed

section \<open>The inverse transform\<close>

text \<open>
  Claim C2. For every raw result whose status is a solution-present status, \<open>invert\<close>
  returns a Solution whose dual variables are the scatter of the equality duals \<open>y\<close> onto
  the recorded equality constraints, updated with the scatter of the cone duals \<open>z\<close> onto
  the recorded non-equality constraints. That scatter follows the recorded order: the
  constraint at position \<open>i\<close> (of a list with distinct ids) receives the rows of \<open>z\<close> after
  the rows of the constraints before it, as many as it has elements, and for an
  exponential cone constraint these rows are permuted cone by cone with the inverse of
  \<open>EXP_CONE_ORDER\<close>. The forward permutation followed by the inverse one gives back every
  stack of cones, and every three-row block, unchanged.
\<close>

theorem invert_dual_scatter:
  fixes solution :: "('a::plus) ecos_solution"
  assumes "STATUS_MAP (exitFlag (sol_info solution)) = Some st"
      and "st \<in> set SP"
      and "distinct (map constr_id (NEQ_CONSTR inverse_data))"
      and "i < length (NEQ_CONSTR inverse_data)"
      and "c = NEQ_CONSTR inverse_data ! i"
      and "rows = take (elem_count c)
                    (drop (sum_list (map elem_count (take i (NEQ_CONSTR inverse_data))))
                       (sol_z solution))"
  shows "\<exists>sol. ECOS_invert SP solution inverse_data = Inr sol
          \<and> dual_vars sol =
              get_dual_values (sol_y solution) (EQ_CONSTR inverse_data)
              ++ get_dual_values (sol_z solution) (NEQ_CONSTR inverse_data)
          \<and> dual_vars sol (constr_id c) =
              Some (if kind c = ExpCone
                    then permute_cones (inverse_order EXP_CONE_ORDER) rows
                    else rows)
          \<and> (\<forall>block :: 'a list.
                permute_cones (inverse_order EXP_CONE_ORDER) (permute_cones EXP_CONE_ORDER block)
                = block)
          \<and> (\<forall>r0 r1 r2 :: 'a.
                permute_rows (inverse_order EXP_CONE_ORDER)
                  (permute_rows EXP_CONE_ORDER [r0, r1, r2]) = [r0, r1, r2])"
proof -
  let ?sol = "\<lparr>sol_status = st,
               opt_val = Some (pcost (sol_info solution) + OFFSET inverse_data),
               primal_vars = [VAR_ID inverse_data \<mapsto> sol_x solution],
               dual_vars = get_dual_values (sol_y solution) (EQ_CONSTR inverse_data)
                           ++ get_dual_values (sol_z solution) (NEQ_CONSTR inverse_data),
               attr = timing_attr solution\<rparr>"
  have run: "ECOS_invert SP solution inverse_data = Inr ?sol"
    using assms(1,2) by (simp add: ECOS_invert_def Let_def)
  have entry: "get_dual_values (sol_z solution) (NEQ_CONSTR inverse_data) (constr_id c) =
                 Some (dual_block c rows)"
    using get_dual_values_nth [OF assms(3,4), of "sol_z solution"] assms(5,6) by simp
  have scatter: "dual_vars ?sol (constr_id c) =
                   Some (if kind c = ExpCone
                         then permute_cones (inverse_order EXP_CONE_ORDER) rows
                         else rows)"
    using entry by (simp add: map_add_def dual_block_def)
  have triple: "permute_rows (inverse_order EXP_CONE_ORDER)
                  (permute_rows EXP_CONE_ORDER [r0, r1, r2]) = [r0, r1, r2]" for r0 r1 r2 :: 'a
    by (simp add: permute_rows_EXP_CONE_ORDER permute_rows_inverse_order)
  show ?thesis
    using run scatter by (simp add: triple permute_cones_round_trip)
qed

theorem invert_dual_scatter_witness:
  "STATUS_MAP (exitFlag (sol_info (example_result 0))) = Some OPTIMAL
   \<and> OPTIMAL \<in> set example_SOLUTION_PRESENT
   \<and> distinct (map constr_id (NEQ_CONSTR example_inverse_data))
   \<and> (3 :: nat) < length (NEQ_CONSTR example_inverse_data)
   \<and> NEQ_CONSTR example_inverse_data ! 3 = example_exp
   \<and> kind example_exp = ExpCone
   \<and> take (elem_count example_exp)
        (drop (sum_list (map elem_count (take 3 (NEQ_CONSTR example_inverse_data))))
           (sol_z (example_result 0))) = [7, 9, 8]
   \<and> (\<exists>sol. ECOS_invert example_SOLUTION_PRESENT (example_result 0) example_inverse_data = Inr sol
          \<and> dual_vars sol (constr_id example_exp) = Some [7, 8, 9])"
proof -
  have st: "STATUS_MAP (exitFlag (sol_info (example_result 0))) = Some OPTIMAL"
    by (simp add: example_result_def STATUS_MAP_def)
  have sp: "OPTIMAL \<in> set example_SOLUTION_PRESENT"
    by (simp add: example_SOLUTION_PRESENT_def)
  have d: "distinct (map constr_id (NEQ_CONSTR example_inverse_data))"
    by (simp add: example_inverse_data_def example_exp_def example_soc_def
        example_nonpos_def example_nonpos2_def)
  have i: "(3 :: nat) < length (NEQ_CONSTR example_inverse_data)"
    by (simp add: example_inverse_data_def)
  have c: "example_exp = NEQ_CONSTR example_inverse_data ! 3"
    by (simp add: example_inverse_data_def)
  have k: "kind example_exp = ExpCone"
    by (simp add: example_exp_def)
  have r: "[7, 9, 8] = take (elem_count example_exp)
        (drop (sum_list (map elem_count (take 3 (NEQ_CONSTR example_inverse_data))))
           (sol_z (example_result 0)))"
    by (simp add: example_inverse_data_def example_result_def elem_count_def
        example_exp_def example_soc_def example_nonpos_def example_nonpos2_def eval_nat_numeral)
  have p: "permute_cones (inverse_order EXP_CONE_ORDER) [7, 9, 8 :: real] = [7, 8, 9]"
    by (simp add: permute_rows_inverse_order)
  show ?thesis
    using invert_dual_scatter [OF st sp d i c r] st sp d i c [symmetric] k r [symmetric] p
    by auto
qed

text \<open>
  Claim C5. On every supported problem \<open>apply\<close> returns and records as the objective
  offset the element at index 0 of the offset vector extracted from the objective's
  argument, and for every raw result whose status is a solution-present status \<open>invert\<close>,
  given that record, returns as optimal value the raw primal cost plus that offset.
\<close>

theorem offset_correctness:
  fixes solution :: "('a::plus) ecos_solution"
  assumes "variables p = var0 # vars"
      and "objective_args p = arg0 # args"
      and "gco arg0 = Inr (coeff, offset0 # offs)"
      and "list_all (\<lambda>c. kind c \<in> {Zero, NonPos, SOC, ExpCone}) (constraints p)"
      and "gcoff (filter (\<lambda>c. kind c = Zero) (constraints p)) EXP_CONE_ORDER = Inr (A, b)"
      and "gcoff (filter (\<lambda>c. kind c = NonPos) (constraints p)
                  @ filter (\<lambda>c. kind c = SOC) (constraints p)
                  @ filter (\<lambda>c. kind c = ExpCone) (constraints p)) EXP_CONE_ORDER = Inr (G, h)"
      and "STATUS_MAP (exitFlag (sol_info solution)) = Some st"
      and "st \<in> set SP"
  shows "\<exists>data inverse_data sol.
           ECOS_apply gco gcoff p = Inr (data, inverse_data)
         \<and> OFFSET inverse_data = offset0
         \<and> ECOS_invert SP solution inverse_data = Inr sol
         \<and> opt_val sol = Some (pcost (sol_info solution) + offset0)"
  using ECOS_apply_succeeds [where gco = gco and gcoff = gcoff, OF assms(1-6)] assms(7,8)
  by (simp add: ECOS_invert_def Let_def)

text \<open>The objective \<open>2x + 5\<close> with the primal cost 3 gives the optimal value 8.\<close>

theorem offset_correctness_witness:
  "variables example_problem = 7 # []
   \<and> objective_args example_problem = ([[2]], [5]) # []
   \<and> example_get_coeff_offset ([[2]], [5]) = Inr ([[2]], 5 # [])
   \<and> list_all (\<lambda>c. kind c \<in> {Zero, NonPos, SOC, ExpCone}) (constraints example_problem)
   \<and> example_group_coeff_offset (filter (\<lambda>c. kind c = Zero) (constraints example_problem))
         EXP_CONE_ORDER = Inr ([[22, 0]], [2200])
   \<and> example_group_coeff_offset
         (filter (\<lambda>c. kind c = NonPos) (constraints example_problem)
          @ filter (\<lambda>c. kind c = SOC) (constraints example_problem)
          @ filter (\<lambda>c. kind c = ExpCone) (constraints example_problem)) EXP_CONE_ORDER =
       Inr ([[24, 0], [24, 1], [25, 0], [23, 0], [23, 1], [23, 2], [21, 0], [21, 2], [21, 1]],
            [2400, 2401, 2500, 2300, 2301, 2302, 2100, 2102, 2101])
   \<and> STATUS_MAP (exitFlag (sol_info (example_result 0))) = Some OPTIMAL
   \<and> OPTIMAL \<in> set example_SOLUTION_PRESENT
   \<and> pcost (sol_info (example_result 0)) = 3
   \<and> (\<exists>data inverse_data sol.
          ECOS_apply example_get_coeff_offset example_group_coeff_offset example_problem
            = Inr (data, inverse_data)
        \<and> inverse_data = example_inverse_data
        \<and> OFFSET inverse_data = 5
        \<and> ECOS_invert example_SOLUTION_PRESENT (example_result 0) inverse_data = Inr sol
        \<and> opt_val sol = Some 8)"
proof -
  have st: "STATUS_MAP (exitFlag (sol_info (example_result 0))) = Some OPTIMAL"
    by (simp add: example_result_def STATUS_MAP_def)
  have sp: "OPTIMAL \<in> set example_SOLUTION_PRESENT"
    by (simp add: example_SOLUTION_PRESENT_def)
  have pc: "pcost (sol_info (example_result 0)) = 3"
    by (simp add: example_result_def)
  show ?thesis
    using offset_correctness [where gco = example_get_coeff_offset
        and gcoff = example_group_coeff_offset, OF example_problem_supported st sp]
      example_problem_supported example_problem_apply st sp pc
    by auto
qed

text \<open>
  Claim C6. For every raw result whose translated status is not a solution-present
  status, \<open>invert\<close> returns the failure Solution of that status: it carries the translated
  status, no primal variable, no dual variable, and no optimal value.
\<close>

theorem failure_solution_shape:
  fixes solution :: "('a::plus) ecos_solution"
  assumes "STATUS_MAP (exitFlag (sol_info solution)) = Some st"
      and "st \<notin> set SP"
  shows "\<exists>sol. ECOS_invert SP solution inverse_data = Inr sol
         \<and> sol = failure_solution st
         \<and> sol_status sol = st
         \<and> primal_vars sol = Map.empty
         \<and> dual_vars sol = Map.empty
         \<and> opt_val sol = None"
  using assms by (simp add: ECOS_invert_def Let_def failure_solution_def)

text \<open>The exit code 1: the status INFEASIBLE, no maps, no optimal value.\<close>

theorem failure_solution_shape_witness:
  "STATUS_MAP (exitFlag (sol_info (example_result 1))) = Some INFEASIBLE
   \<and> INFEASIBLE \<notin> set example_SOLUTION_PRESENT
   \<and> (\<exists>sol. ECOS_invert example_SOLUTION_PRESENT (example_result 1) example_inverse_data = Inr sol
          \<and> sol_status sol = INFEASIBLE
          \<and> primal_vars sol = Map.empty
          \<and> dual_vars sol = Map.empty
          \<and> opt_val sol = None)"
proof -
  have st: "STATUS_MAP (exitFlag (sol_info (example_result 1))) = Some INFEASIBLE"
    by (simp add: example_result_def STATUS_MAP_def)
  have sp: "INFEASIBLE \<notin> set example_SOLUTION_PRESENT"
    by (simp add: example_SOLUTION_PRESENT_def)
  show ?thesis
    using failure_solution_shape [OF st sp, of example_inverse_data] st sp
    by auto
qed

text \<open>
  Claim C4 at the exit code -7. The raw result has a solve time, a setup time and an
  iteration count, and \<open>invert\<close> builds the attributes from them, but its failure branch
  returns \<open>failure_solution(status)\<close>, which receives the status alone: the returned
  Solution has no attributes.
\<close>

theorem invert_failure_drops_attr:
  "tsolve (timing (sol_info (example_result (- 7)))) = 1 / 2
   \<and> tsetup (timing (sol_info (example_result (- 7)))) = 1 / 4
   \<and> info_iter (sol_info (example_result (- 7))) = 9
   \<and> ECOS_invert example_SOLUTION_PRESENT (example_result (- 7)) example_inverse_data =
       Inr \<lparr>sol_status = SOLVER_ERROR, opt_val = None, primal_vars = Map.empty,
            dual_vars = Map.empty, attr = Map.empty\<rparr>"
  by (simp add: ECOS_invert_def example_result_def STATUS_MAP_def
      example_SOLUTION_PRESENT_def failure_solution_def)

section \<open>The solver call\<close>

text \<open>
  Claim C10. The arguments that \<open>solve_via_data\<close> passes to the solver, and with them its
  result for a given solver, do not depend on \<open>warm_start\<close>: for the same data, verbosity
  and options, any two values of \<open>warm_start\<close> give the same call and the same result.
\<close>

theorem solve_via_data_ignores_warm_start:
  "ecos_solve_args data warm_start verbose solver_opts =
     ecos_solve_args data warm_start' verbose solver_opts
   \<and> ECOS_solve_via_data ecos_solve data warm_start verbose solver_opts =
     ECOS_solve_via_data ecos_solve data warm_start' verbose solver_opts"
  by (simp add: ECOS_solve_via_data_def ecos_solve_args_def)

end
